theory Spec2Isabelle
  imports Main
begin

section \<open>Inbound presence handling of src/xmpp/presence.c\<close>

text \<open>
  The handlers of presence.c read an already parsed presence stanza, the JID of the
  connection, the capability cache and the room registry, and act by calling the
  notification layer (\<open>prof_handle_*\<close>), by sending discovery queries and by updating
  the room registry. The embedding threads one record, \<open>world\<close>, through every
  call: it holds the mutable state, the log of notifications and the log of stanzas sent.
  A call that dereferences a null pointer ends the run with an error; what was done
  before stays done, so a result is a pair of the outcome and the world reached.
\<close>

subsection \<open>Constants of the stanza vocabulary\<close>

abbreviation STANZA_TYPE_ERROR :: string where "STANZA_TYPE_ERROR \<equiv> ''error''"
abbreviation STANZA_TYPE_UNAVAILABLE :: string where "STANZA_TYPE_UNAVAILABLE \<equiv> ''unavailable''"
abbreviation STANZA_TYPE_SUBSCRIBE :: string where "STANZA_TYPE_SUBSCRIBE \<equiv> ''subscribe''"
abbreviation STANZA_TYPE_SUBSCRIBED :: string where "STANZA_TYPE_SUBSCRIBED \<equiv> ''subscribed''"
abbreviation STANZA_TYPE_UNSUBSCRIBED :: string where "STANZA_TYPE_UNSUBSCRIBED \<equiv> ''unsubscribed''"
abbreviation STANZA_NS_MUC_USER :: string where
  "STANZA_NS_MUC_USER \<equiv> ''http://jabber.org/protocol/muc#user''"

subsection \<open>The parsed presence stanza\<close>

text \<open>
  \<open>Jid\<close> is the result of \<open>jid_create\<close>: the bare JID and the resource part.
  JID parsing is outside this file; the handlers dereference the parsed sender
  unconditionally, so the sender is given here in parsed form.
\<close>

record Jid =
  barejid :: string
  resourcepart :: string

text \<open>
  The capability advertisement (the \<open>c\<close> child): \<open>caps_hash\<close> is what
  \<open>stanza_caps_get_hash\<close> returns and \<open>caps_str\<close> what \<open>stanza_get_caps_str\<close>
  returns; \<open>None\<close> is the null pointer the source tests for.
\<close>

record caps =
  caps_hash :: "string option"
  caps_str :: "string option"

text \<open>
  A child element read with \<open>xmpp_stanza_get_child_by_name\<close> and
  \<open>xmpp_stanza_get_text\<close> is a \<open>string option option\<close>: \<open>None\<close> when the child
  is missing, \<open>Some None\<close> when it is there and has no text, \<open>Some (Some t)\<close> otherwise.
  The predicates of stanza.c (\<open>stanza_is_muc_presence\<close>,
  \<open>stanza_is_muc_self_presence\<close>, \<open>stanza_is_room_nick_change\<close>,
  \<open>stanza_get_new_nick\<close>, \<open>stanza_get_idle_time\<close>) are fields holding their result on
  this stanza.
\<close>

record stanza =
  st_type :: "string option"
  st_from :: string
  st_from_jid :: Jid
  st_muc_user :: bool
  st_muc_self_presence :: bool
  st_room_nick_change :: bool
  st_new_nick :: "string option"
  st_show :: "string option option"
  st_status :: "string option option"
  st_priority :: "string option option"
  st_idle_time :: int
  st_caps :: "caps option"

record xmpp_conn =
  conn_jid :: Jid

subsection \<open>Resources and notifications\<close>

datatype resource_presence_t =
  RESOURCE_ONLINE | RESOURCE_CHAT | RESOURCE_AWAY | RESOURCE_XA | RESOURCE_DND | RESOURCE_OFFLINE

record Resource =
  res_name :: string
  res_presence :: resource_presence_t
  res_status :: "string option"
  res_priority :: int
  res_caps_str :: "string option"

datatype jabber_subscr_t = PRESENCE_SUBSCRIBE | PRESENCE_SUBSCRIBED | PRESENCE_UNSUBSCRIBED

text \<open>One constructor for each call into the notification layer, with its arguments.\<close>

datatype event =
    ContactOnline string Resource "int option"
  | ContactOffline string string "string option"
  | Subscription string jabber_subscr_t
  | ConnectionError string
  | LeaveRoom string
  | RoomNickChange string string
  | RoomRosterComplete string
  | RoomMemberOffline string string string "string option"
  | RoomMemberNickChange string string string
  | RoomMemberOnline string string "string option" "string option" "string option"
  | RoomMemberPresence string string "string option" "string option" "string option"

record disco_iq =
  iq_id :: string
  iq_to :: string
  iq_node :: string

subsection \<open>The room registry\<close>

record occupant =
  occ_show :: "string option"
  occ_status :: "string option"
  occ_caps_key :: "string option"

record ChatRoom =
  self_nick :: string
  roster_received :: bool
  occupants :: "string \<rightharpoonup> occupant"
  pending_nick_change :: "(string \<times> string option) option"
  self_pending_nick_change :: bool

subsection \<open>The state\<close>

datatype error = NullPointer

record world =
  rooms :: "string \<rightharpoonup> ChatRoom"
  sub_requests :: "string set"
  caps_cache :: "string set"
  now :: int
  events :: "event list"
  sent :: "disco_iq list"

type_synonym 'a result = "(error + 'a) \<times> world"

text \<open>
  Modelled from the spec: the capability cache (capabilities.c) and the construction of
  the discovery query (stanza.c) are not in this file. The cache is consulted for
  membership only; a discovery query is an identifier, a destination JID and a target node,
  and sending it is fire-and-forget: it is appended to the log of stanzas sent.
\<close>

definition emit :: "event \<Rightarrow> world \<Rightarrow> world" where
  "emit e w = w\<lparr>events := events w @ [e]\<rparr>"

definition xmpp_send :: "disco_iq \<Rightarrow> world \<Rightarrow> world" where
  "xmpp_send iq w = w\<lparr>sent := sent w @ [iq]\<rparr>"

definition stanza_create_disco_iq :: "string \<Rightarrow> string \<Rightarrow> string \<Rightarrow> disco_iq" where
  "stanza_create_disco_iq ident to node = \<lparr>iq_id = ident, iq_to = to, iq_node = node\<rparr>"

definition caps_contains :: "world \<Rightarrow> string \<Rightarrow> bool" where
  "caps_contains w k = (k \<in> caps_cache w)"

text \<open>\<open>strdup\<close> reads through its argument: on the null pointer the run ends.\<close>

fun strdup :: "string option \<Rightarrow> error + string option" where
  "strdup None = Inl NullPointer"
| "strdup (Some s) = Inr (Some s)"

subsection \<open>The capability key resolver\<close>

text \<open>
  \<open>_get_caps_key\<close> (lines 455-544). The three branches send the discovery query
  before they return; the two branches under a hash attribute return a copy of the key
  made with \<open>strdup\<close>, the legacy branch returns the sender itself.
\<close>

definition get_caps_key :: "stanza \<Rightarrow> world \<Rightarrow> string option result" where
  "get_caps_key stanza w =
     (let from = st_from stanza in
      case st_caps stanza of
        None \<Rightarrow> (Inr None, w)
      | Some c \<Rightarrow>
          (case caps_hash c of
             Some hash_type \<Rightarrow>
               if hash_type = ''sha-1'' then
                 (let node = caps_str c;
                      caps_key = node;
                      w' = (case node of
                              Some n \<Rightarrow>
                                if \<not> caps_contains w n
                                then xmpp_send (stanza_create_disco_iq ''disco'' from n) w
                                else w
                            | None \<Rightarrow> w)
                  in (strdup caps_key, w'))
               else
                 (let node = caps_str c;
                      caps_key = Some from;
                      w' = (case node of
                              Some n \<Rightarrow>
                                if \<not> caps_contains w from
                                then xmpp_send (stanza_create_disco_iq (''disco_'' @ from) from n) w
                                else w
                            | None \<Rightarrow> w)
                  in (strdup caps_key, w'))
           | None \<Rightarrow>
               (let node = caps_str c;
                    caps_key = Some from;
                    w' = (case node of
                            Some n \<Rightarrow>
                              if \<not> caps_contains w from
                              then xmpp_send (stanza_create_disco_iq (''disco_'' @ from) from n) w
                              else w
                          | None \<Rightarrow> w)
                in (Inr caps_key, w'))))"

text \<open>The input shape on which line 515 copies a null key.\<close>

definition null_key_copy :: "stanza \<Rightarrow> bool" where
  "null_key_copy stanza =
     (case st_caps stanza of
        None \<Rightarrow> False
      | Some c \<Rightarrow> caps_hash c = Some ''sha-1'' \<and> caps_str c = None)"

subsection \<open>Direct presence\<close>

text \<open>
  \<open>atoi\<close> is the C library's \<open>(int) strtol (nptr, NULL, 10)\<close>: leading white
  space is skipped, one sign is read, then decimal digits up to the first other
  character. \<open>strtol\<close> saturates at the bounds of \<open>long\<close> (64 bits), and the
  conversion to the 32-bit \<open>int\<close> that line 422 stores keeps the low 32 bits as a
  two's complement value. (C itself leaves \<open>atoi\<close> undefined outside the range of
  \<open>int\<close>; this is what the GNU library does on a 64-bit target.)
\<close>

definition isspace :: "char \<Rightarrow> bool" where
  "isspace c = (c \<in> set [CHR '' '', CHR 0x09, CHR 0x0A, CHR 0x0B, CHR 0x0C, CHR 0x0D])"

definition isdigit :: "char \<Rightarrow> bool" where
  "isdigit c = (48 \<le> (of_char c :: nat) \<and> (of_char c :: nat) \<le> 57)"

fun atoi_digits :: "string \<Rightarrow> int \<Rightarrow> int" where
  "atoi_digits [] acc = acc"
| "atoi_digits (c # cs) acc =
     (if isdigit c then atoi_digits cs (acc * 10 + (of_char c - 48)) else acc)"

definition decimal_prefix :: "string \<Rightarrow> int" where
  "decimal_prefix s =
     (case dropWhile isspace s of
        [] \<Rightarrow> 0
      | c # cs \<Rightarrow>
          if c = CHR ''-'' then - atoi_digits cs 0
          else if c = CHR ''+'' then atoi_digits cs 0
          else atoi_digits (c # cs) 0)"

definition LONG_MAX :: int where
  "LONG_MAX = 2 ^ 63 - 1"

definition LONG_MIN :: int where
  "LONG_MIN = - (2 ^ 63)"

definition strtol :: "string \<Rightarrow> int" where
  "strtol s = max LONG_MIN (min LONG_MAX (decimal_prefix s))"

definition int_of_long :: "int \<Rightarrow> int" where
  "int_of_long v = (v + 2 ^ 31) mod 2 ^ 32 - 2 ^ 31"

definition atoi :: "string \<Rightarrow> int" where
  "atoi s = int_of_long (strtol s)"

text \<open>
  Modelled from the spec: \<open>resource_presence_from_string\<close> is not in this file. The
  spec names the presence kinds online, chat, away, xa, dnd and offline, and gives online
  as the default kind.
\<close>

definition resource_presence_from_string :: "string option \<Rightarrow> resource_presence_t" where
  "resource_presence_from_string str =
     (if str = Some ''chat'' then RESOURCE_CHAT
      else if str = Some ''away'' then RESOURCE_AWAY
      else if str = Some ''xa'' then RESOURCE_XA
      else if str = Some ''dnd'' then RESOURCE_DND
      else if str = Some ''offline'' then RESOURCE_OFFLINE
      else RESOURCE_ONLINE)"

definition resource_new ::
  "string \<Rightarrow> resource_presence_t \<Rightarrow> string option \<Rightarrow> int \<Rightarrow> string option \<Rightarrow> Resource" where
  "resource_new name presence status priority caps_key =
     \<lparr>res_name = name, res_presence = presence, res_status = status,
      res_priority = priority, res_caps_str = caps_key\<rparr>"

text \<open>
  Modelled from the spec: the notification layer (\<open>prof_handle_contact_online\<close>,
  \<open>prof_handle_contact_offline\<close>, \<open>prof_handle_subscription\<close>) is not in this
  file. A call is a fire-and-forget notification; it is recorded in the log with its
  arguments.
\<close>

definition prof_handle_contact_online :: "string \<Rightarrow> Resource \<Rightarrow> int option \<Rightarrow> world \<Rightarrow> world" where
  "prof_handle_contact_online jid resource last_activity w =
     emit (ContactOnline jid resource last_activity) w"

definition prof_handle_contact_offline :: "string \<Rightarrow> string \<Rightarrow> string option \<Rightarrow> world \<Rightarrow> world" where
  "prof_handle_contact_offline jid resource status w = emit (ContactOffline jid resource status) w"

definition prof_handle_subscription :: "string \<Rightarrow> jabber_subscr_t \<Rightarrow> world \<Rightarrow> world" where
  "prof_handle_subscription jid action w = emit (Subscription jid action) w"

definition stanza_is_muc_presence :: "stanza \<Rightarrow> bool" where
  "stanza_is_muc_presence stanza = st_muc_user stanza"

text \<open>\<open>_unavailable_handler\<close> (lines 324-357).\<close>

definition unavailable_handler :: "xmpp_conn \<Rightarrow> stanza \<Rightarrow> world \<Rightarrow> int result" where
  "unavailable_handler conn stanza w =
     (let my_jid = conn_jid conn;
          from_jid = st_from_jid stanza;
          status_str = (case st_status stanza of Some t \<Rightarrow> t | None \<Rightarrow> None)
      in if barejid my_jid \<noteq> barejid from_jid
         then (Inr 1, prof_handle_contact_offline (barejid from_jid) (resourcepart from_jid)
                        status_str w)
         else (Inr 1, w))"

text \<open>\<open>_available_handler\<close> (lines 359-452).\<close>

definition available_handler :: "xmpp_conn \<Rightarrow> stanza \<Rightarrow> world \<Rightarrow> int result" where
  "available_handler conn stanza w =
     (if st_type stanza = Some STANZA_TYPE_ERROR then (Inr 1, w)
      else if st_type stanza = Some STANZA_TYPE_UNAVAILABLE
            \<or> st_type stanza = Some STANZA_TYPE_SUBSCRIBE
            \<or> st_type stanza = Some STANZA_TYPE_SUBSCRIBED
            \<or> st_type stanza = Some STANZA_TYPE_UNSUBSCRIBED then (Inr 1, w)
      else if stanza_is_muc_presence stanza then (Inr 1, w)
      else
        (let my_jid = conn_jid conn;
             from_jid = st_from_jid stanza
         in case get_caps_key stanza w of
              (Inl e, w1) \<Rightarrow> (Inl e, w1)
            | (Inr caps_key, w1) \<Rightarrow>
                (let idle_seconds = st_idle_time stanza;
                     last_activity =
                       (if idle_seconds > 0 then Some (now w1 + (0 - idle_seconds)) else None);
                     show_str = (case st_show stanza of Some t \<Rightarrow> t | None \<Rightarrow> Some ''online'');
                     status_str = (case st_status stanza of Some t \<Rightarrow> t | None \<Rightarrow> None);
                     priority = (case st_priority stanza of
                                   Some (Some priority_str) \<Rightarrow> atoi priority_str
                                 | _ \<Rightarrow> 0)
                 in if barejid my_jid \<noteq> barejid from_jid
                    then (let presence = resource_presence_from_string show_str;
                              resource = resource_new (resourcepart from_jid) presence
                                           status_str priority caps_key
                          in (Inr 1, prof_handle_contact_online (barejid from_jid) resource
                                       last_activity w1))
                    else (Inr 1, w1))))"

subsection \<open>Subscription requests\<close>

text \<open>Lines 275-322. \<open>sub_requests\<close> is a hash table keyed by bare JID, used as a set.\<close>

definition unsubscribed_handler :: "xmpp_conn \<Rightarrow> stanza \<Rightarrow> world \<Rightarrow> int result" where
  "unsubscribed_handler conn stanza w =
     (let from_jid = st_from_jid stanza;
          w1 = prof_handle_subscription (barejid from_jid) PRESENCE_UNSUBSCRIBED w
      in (Inr 1, w1\<lparr>sub_requests := sub_requests w1 - {barejid from_jid}\<rparr>))"

definition subscribed_handler :: "xmpp_conn \<Rightarrow> stanza \<Rightarrow> world \<Rightarrow> int result" where
  "subscribed_handler conn stanza w =
     (let from_jid = st_from_jid stanza;
          w1 = prof_handle_subscription (barejid from_jid) PRESENCE_SUBSCRIBED w
      in (Inr 1, w1\<lparr>sub_requests := sub_requests w1 - {barejid from_jid}\<rparr>))"

definition subscribe_handler :: "xmpp_conn \<Rightarrow> stanza \<Rightarrow> world \<Rightarrow> int result" where
  "subscribe_handler conn stanza w =
     (let from_jid = st_from_jid stanza;
          w1 = prof_handle_subscription (barejid from_jid) PRESENCE_SUBSCRIBE w
      in (Inr 1, w1\<lparr>sub_requests := insert (barejid from_jid) (sub_requests w1)\<rparr>))"

subsection \<open>The room registry operations\<close>

text \<open>
  Modelled from the spec: the room registry (muc.c) is not in this file. A room record
  holds \<open>roster_received\<close>, the occupant table, the pending nick change of a member
  (old nick and the new nick when the stanza gave one) and the pending nick change of the
  own occupant; an operation on a room that is not registered does nothing, a query on it
  answers no. Completing a member's nick change takes the entry of the old nick out of the
  table and clears the pending record when its new nick is the one asked for; the handler
  then stores the entry of the new nick.
\<close>

definition update_room :: "string \<Rightarrow> (ChatRoom \<Rightarrow> ChatRoom) \<Rightarrow> world \<Rightarrow> world" where
  "update_room room f w =
     (case rooms w room of
        None \<Rightarrow> w
      | Some r \<Rightarrow> w\<lparr>rooms := (rooms w)(room \<mapsto> f r)\<rparr>)"

definition muc_get_roster_received :: "world \<Rightarrow> string \<Rightarrow> bool" where
  "muc_get_roster_received w room =
     (case rooms w room of None \<Rightarrow> False | Some r \<Rightarrow> roster_received r)"

definition muc_set_roster_received :: "string \<Rightarrow> world \<Rightarrow> world" where
  "muc_set_roster_received room w = update_room room (\<lambda>r. r\<lparr>roster_received := True\<rparr>) w"

definition muc_is_room_pending_nick_change :: "world \<Rightarrow> string \<Rightarrow> bool" where
  "muc_is_room_pending_nick_change w room =
     (case rooms w room of None \<Rightarrow> False | Some r \<Rightarrow> self_pending_nick_change r)"

definition muc_set_room_pending_nick_change :: "string \<Rightarrow> world \<Rightarrow> world" where
  "muc_set_room_pending_nick_change room w =
     update_room room (\<lambda>r. r\<lparr>self_pending_nick_change := True\<rparr>) w"

definition muc_complete_room_nick_change :: "string \<Rightarrow> string \<Rightarrow> world \<Rightarrow> world" where
  "muc_complete_room_nick_change room nick w =
     update_room room (\<lambda>r. r\<lparr>self_nick := nick, self_pending_nick_change := False\<rparr>) w"

definition muc_nick_in_roster :: "world \<Rightarrow> string \<Rightarrow> string \<Rightarrow> bool" where
  "muc_nick_in_roster w room nick =
     (case rooms w room of None \<Rightarrow> False | Some r \<Rightarrow> occupants r nick \<noteq> None)"

definition muc_add_to_roster ::
  "string \<Rightarrow> string \<Rightarrow> string option \<Rightarrow> string option \<Rightarrow> string option \<Rightarrow> world \<Rightarrow> world" where
  "muc_add_to_roster room nick show_str status_str caps_key w =
     update_room room
       (\<lambda>r. r\<lparr>occupants := (occupants r)(nick \<mapsto>
                \<lparr>occ_show = show_str, occ_status = status_str, occ_caps_key = caps_key\<rparr>)\<rparr>) w"

definition muc_set_roster_pending_nick_change ::
  "string \<Rightarrow> string option \<Rightarrow> string \<Rightarrow> world \<Rightarrow> world" where
  "muc_set_roster_pending_nick_change room new_nick old_nick w =
     update_room room (\<lambda>r. r\<lparr>pending_nick_change := Some (old_nick, new_nick)\<rparr>) w"

definition muc_complete_roster_nick_change ::
  "string \<Rightarrow> string \<Rightarrow> world \<Rightarrow> string option \<times> world" where
  "muc_complete_roster_nick_change room nick w =
     (case rooms w room of
        None \<Rightarrow> (None, w)
      | Some r \<Rightarrow>
          (case pending_nick_change r of
             Some (old_nick, Some new_nick) \<Rightarrow>
               if new_nick = nick
               then (Some old_nick,
                     w\<lparr>rooms := (rooms w)(room \<mapsto>
                          r\<lparr>occupants := (occupants r)(old_nick := None),
                            pending_nick_change := None\<rparr>)\<rparr>)
               else (None, w)
           | _ \<Rightarrow> (None, w)))"

text \<open>
  Modelled from the spec: the room notifications (\<open>prof_handle_room_*\<close>,
  \<open>prof_handle_leave_room\<close>) are not in this file. Each is recorded in the log. The spec
  gives three of them a state change of their own: roster complete sets
  \<open>roster_received\<close>, member online inserts the occupant entry, member presence updates
  it. Member offline and leave room change nothing here (removal is left to the consumer).
\<close>

definition prof_handle_leave_room :: "string \<Rightarrow> world \<Rightarrow> world" where
  "prof_handle_leave_room room w = emit (LeaveRoom room) w"

definition prof_handle_room_nick_change :: "string \<Rightarrow> string \<Rightarrow> world \<Rightarrow> world" where
  "prof_handle_room_nick_change room nick w = emit (RoomNickChange room nick) w"

definition prof_handle_room_roster_complete :: "string \<Rightarrow> world \<Rightarrow> world" where
  "prof_handle_room_roster_complete room w =
     emit (RoomRosterComplete room) (muc_set_roster_received room w)"

definition prof_handle_room_member_offline ::
  "string \<Rightarrow> string \<Rightarrow> string \<Rightarrow> string option \<Rightarrow> world \<Rightarrow> world" where
  "prof_handle_room_member_offline room nick show_str status_str w =
     emit (RoomMemberOffline room nick show_str status_str) w"

definition prof_handle_room_member_nick_change ::
  "string \<Rightarrow> string \<Rightarrow> string \<Rightarrow> world \<Rightarrow> world" where
  "prof_handle_room_member_nick_change room old_nick nick w =
     emit (RoomMemberNickChange room old_nick nick) w"

definition prof_handle_room_member_online ::
  "string \<Rightarrow> string \<Rightarrow> string option \<Rightarrow> string option \<Rightarrow> string option \<Rightarrow> world \<Rightarrow> world" where
  "prof_handle_room_member_online room nick show_str status_str caps_key w =
     emit (RoomMemberOnline room nick show_str status_str caps_key)
       (muc_add_to_roster room nick show_str status_str caps_key w)"

definition prof_handle_room_member_presence ::
  "string \<Rightarrow> string \<Rightarrow> string option \<Rightarrow> string option \<Rightarrow> string option \<Rightarrow> world \<Rightarrow> world" where
  "prof_handle_room_member_presence room nick show_str status_str caps_key w =
     emit (RoomMemberPresence room nick show_str status_str caps_key)
       (muc_add_to_roster room nick show_str status_str caps_key w)"

subsection \<open>Room presence\<close>

definition stanza_is_muc_self_presence :: "stanza \<Rightarrow> bool" where
  "stanza_is_muc_self_presence stanza = st_muc_self_presence stanza"

definition stanza_is_room_nick_change :: "stanza \<Rightarrow> bool" where
  "stanza_is_room_nick_change stanza = st_room_nick_change stanza"

definition stanza_get_new_nick :: "stanza \<Rightarrow> string option" where
  "stanza_get_new_nick stanza = st_new_nick stanza"

text \<open>\<open>_room_presence_handler\<close> (lines 546-642).\<close>

definition room_presence_handler :: "xmpp_conn \<Rightarrow> stanza \<Rightarrow> world \<Rightarrow> int result" where
  "room_presence_handler conn stanza w =
     (if st_type stanza = Some STANZA_TYPE_ERROR then (Inr 1, w)
      else
        (let from_jid = st_from_jid stanza;
             room = barejid from_jid;
             nick = resourcepart from_jid
         in if stanza_is_muc_self_presence stanza then
              (let type = st_type stanza;
                   nick_change = stanza_is_room_nick_change stanza
               in if type = Some STANZA_TYPE_UNAVAILABLE then
                    (if nick_change then (Inr 1, muc_set_room_pending_nick_change room w)
                     else (Inr 1, prof_handle_leave_room room w))
                  else if muc_is_room_pending_nick_change w room then
                    (Inr 1, prof_handle_room_nick_change room nick
                              (muc_complete_room_nick_change room nick w))
                  else if \<not> muc_get_roster_received w room then
                    (Inr 1, prof_handle_room_roster_complete room w)
                  else (Inr 1, w))
            else
              (let type = st_type stanza
               in case get_caps_key stanza w of
                    (Inl e, w1) \<Rightarrow> (Inl e, w1)
                  | (Inr caps_key, w1) \<Rightarrow>
                      (let status_str = (case st_status stanza of Some t \<Rightarrow> t | None \<Rightarrow> None)
                       in if type = Some STANZA_TYPE_UNAVAILABLE then
                            (if stanza_is_room_nick_change stanza then
                               (let new_nick = stanza_get_new_nick stanza
                                in (Inr 1, muc_set_roster_pending_nick_change room new_nick nick w1))
                             else (Inr 1, prof_handle_room_member_offline room nick ''offline''
                                            status_str w1))
                          else
                            (let show_str = (case st_show stanza of
                                               Some t \<Rightarrow> t
                                             | None \<Rightarrow> Some ''online'')
                             in if \<not> muc_get_roster_received w1 room then
                                  (Inr 1, muc_add_to_roster room nick show_str status_str
                                            caps_key w1)
                                else
                                  (case muc_complete_roster_nick_change room nick w1 of
                                     (Some old_nick, w2) \<Rightarrow>
                                       (Inr 1, prof_handle_room_member_nick_change room old_nick nick
                                                 (muc_add_to_roster room nick show_str status_str
                                                    caps_key w2))
                                   | (None, w2) \<Rightarrow>
                                       if \<not> muc_nick_in_roster w2 room nick then
                                         (Inr 1, prof_handle_room_member_online room nick show_str
                                                   status_str caps_key w2)
                                       else
                                         (Inr 1, prof_handle_room_member_presence room nick show_str
                                                   status_str caps_key w2)))))))"

text \<open>A run of the room handler over the stanzas in arrival order; it ends at an error.\<close>

fun room_presence_run :: "xmpp_conn \<Rightarrow> stanza list \<Rightarrow> world \<Rightarrow> int result" where
  "room_presence_run conn [] w = (Inr 1, w)"
| "room_presence_run conn (stanza # rest) w =
     (case room_presence_handler conn stanza w of
        (Inl e, w1) \<Rightarrow> (Inl e, w1)
      | (Inr _, w1) \<Rightarrow> room_presence_run conn rest w1)"

subsection \<open>Handler registration and dispatch\<close>

text \<open>
  Modelled from the spec: \<open>connection_error_handler\<close> belongs to the connection
  module and is not in this file. An error stanza is handed to it; its call is recorded in
  the log.
\<close>

definition connection_error_handler :: "xmpp_conn \<Rightarrow> stanza \<Rightarrow> world \<Rightarrow> int result" where
  "connection_error_handler conn stanza w = (Inr 1, emit (ConnectionError (st_from stanza)) w)"

type_synonym handler = "xmpp_conn \<Rightarrow> stanza \<Rightarrow> world \<Rightarrow> int result"

text \<open>
  \<open>presence_add_handlers\<close> (lines 68-81): the \<open>HANDLE\<close> macro registers a handler
  under a namespace and a type, either of which may be null, for stanzas named presence.
\<close>

definition presence_add_handlers :: "(string option \<times> string option \<times> handler) list" where
  "presence_add_handlers =
     [(None,                     Some STANZA_TYPE_ERROR,        connection_error_handler),
      (Some STANZA_NS_MUC_USER,  None,                          room_presence_handler),
      (None,                     Some STANZA_TYPE_UNAVAILABLE,  unavailable_handler),
      (None,                     Some STANZA_TYPE_SUBSCRIBE,    subscribe_handler),
      (None,                     Some STANZA_TYPE_SUBSCRIBED,   subscribed_handler),
      (None,                     Some STANZA_TYPE_UNSUBSCRIBED, unsubscribed_handler),
      (None,                     None,                          available_handler)]"

text \<open>
  The connection library calls, in the order of registration, every handler whose
  namespace and type agree with the stanza: a null namespace or type agrees with every
  stanza, a namespace agrees when the stanza carries a child of it. This is what the
  comments of \<open>_available_handler\<close> record (the handler still fires for an error, for the
  other types and for room presence) and why that handler filters. Every handler of this
  file returns 1, so each stays registered.
\<close>

definition handler_matches :: "string option \<Rightarrow> string option \<Rightarrow> stanza \<Rightarrow> bool" where
  "handler_matches ns type stanza =
     ((case ns of None \<Rightarrow> True | Some n \<Rightarrow> n = STANZA_NS_MUC_USER \<and> st_muc_user stanza)
      \<and> (case type of None \<Rightarrow> True | Some t \<Rightarrow> st_type stanza = Some t))"

fun handler_fire_stanza ::
  "(string option \<times> string option \<times> handler) list \<Rightarrow> xmpp_conn \<Rightarrow> stanza \<Rightarrow> world \<Rightarrow> int result" where
  "handler_fire_stanza [] conn stanza w = (Inr 1, w)"
| "handler_fire_stanza ((ns, type, h) # rest) conn stanza w =
     (if handler_matches ns type stanza
      then (case h conn stanza w of
              (Inl e, w1) \<Rightarrow> (Inl e, w1)
            | (Inr _, w1) \<Rightarrow> handler_fire_stanza rest conn stanza w1)
      else handler_fire_stanza rest conn stanza w)"

definition presence_dispatch :: "xmpp_conn \<Rightarrow> stanza \<Rightarrow> world \<Rightarrow> int result" where
  "presence_dispatch conn stanza w = handler_fire_stanza presence_add_handlers conn stanza w"

subsection \<open>Reading the log\<close>


definition roster_complete_count :: "string \<Rightarrow> event list \<Rightarrow> nat" where
  "roster_complete_count room evs = count_list evs (RoomRosterComplete room)"

subsection \<open>Example inputs\<close>

definition empty_world :: world where
  "empty_world =
     \<lparr>rooms = Map.empty, sub_requests = {}, caps_cache = {}, now = 0, events = [], sent = []\<rparr>"

definition local_conn :: xmpp_conn where
  "local_conn = \<lparr>conn_jid = \<lparr>barejid = ''me@example.com'', resourcepart = ''home''\<rparr>\<rparr>"

text \<open>An available presence with no child element, from the given bare JID and resource.\<close>

definition plain_presence :: "string \<Rightarrow> string \<Rightarrow> stanza" where
  "plain_presence bare res =
     \<lparr>st_type = None, st_from = bare @ ''/'' @ res,
      st_from_jid = \<lparr>barejid = bare, resourcepart = res\<rparr>,
      st_muc_user = False, st_muc_self_presence = False, st_room_nick_change = False,
      st_new_nick = None, st_show = None, st_status = None, st_priority = None,
      st_idle_time = 0, st_caps = None\<rparr>"

definition hash_with_ver :: stanza where
  "hash_with_ver =
     (plain_presence ''carol@example.com'' ''phone'')
       \<lparr>st_caps := Some \<lparr>caps_hash = Some ''sha-1'', caps_str = Some ''client#q07IKJEyjvHSyhy''\<rparr>\<rparr>"

definition hash_with_ver_dave :: stanza where
  "hash_with_ver_dave =
     (plain_presence ''dave@example.com'' ''desk'')
       \<lparr>st_caps := Some \<lparr>caps_hash = Some ''sha-1'', caps_str = Some ''client#q07IKJEyjvHSyhy''\<rparr>\<rparr>"

definition hash_without_ver :: stanza where
  "hash_without_ver =
     (plain_presence ''carol@example.com'' ''phone'')
       \<lparr>st_caps := Some \<lparr>caps_hash = Some ''sha-1'', caps_str = None\<rparr>\<rparr>"

definition legacy_caps :: stanza where
  "legacy_caps =
     (plain_presence ''carol@example.com'' ''phone'')
       \<lparr>st_caps := Some \<lparr>caps_hash = None, caps_str = Some ''client#1.0''\<rparr>\<rparr>"


definition chat_room :: string where
  "chat_room = ''room@conference.example.com''"

text \<open>A room after the roster burst, with alice and bob in it; and the same room just joined.\<close>

definition joined_room :: ChatRoom where
  "joined_room =
     \<lparr>self_nick = ''me'', roster_received = True,
      occupants =
        [''alice'' \<mapsto> \<lparr>occ_show = Some ''online'', occ_status = None, occ_caps_key = None\<rparr>,
         ''bob'' \<mapsto> \<lparr>occ_show = Some ''online'', occ_status = None, occ_caps_key = None\<rparr>],
      pending_nick_change = None, self_pending_nick_change = False\<rparr>"

definition joined_world :: world where
  "joined_world = empty_world\<lparr>rooms := [chat_room \<mapsto> joined_room]\<rparr>"

definition joining_room :: ChatRoom where
  "joining_room =
     \<lparr>self_nick = ''me'', roster_received = False, occupants = Map.empty,
      pending_nick_change = None, self_pending_nick_change = False\<rparr>"


text \<open>Room presence from an occupant of \<open>chat_room\<close>, available and with no child.\<close>

definition muc_presence :: "string \<Rightarrow> stanza" where
  "muc_presence nick = (plain_presence ''room@conference.example.com'' nick)\<lparr>st_muc_user := True\<rparr>"

definition muc_unavailable :: stanza where
  "muc_unavailable = (muc_presence ''bob'')\<lparr>st_type := Some STANZA_TYPE_UNAVAILABLE\<rparr>"



definition self_renamed :: stanza where
  "self_renamed = (muc_presence ''me2'')\<lparr>st_muc_self_presence := True\<rparr>"

definition alice_renaming :: stanza where
  "alice_renaming =
     (muc_presence ''alice'')\<lparr>st_type := Some STANZA_TYPE_UNAVAILABLE, st_room_nick_change := True,
                              st_new_nick := Some ''alice2''\<rparr>"

definition alice_renamed :: stanza where
  "alice_renamed = muc_presence ''alice2''"

definition alice_renamed_no_ver :: stanza where
  "alice_renamed_no_ver =
     alice_renamed\<lparr>st_caps := Some \<lparr>caps_hash = Some ''sha-1'', caps_str = None\<rparr>\<rparr>"

text \<open>The joining room with the own nick change pending, and with bob stored by the burst.\<close>

definition renaming_room :: ChatRoom where
  "renaming_room = joining_room\<lparr>self_pending_nick_change := True\<rparr>"

definition renaming_world :: world where
  "renaming_world = empty_world\<lparr>rooms := [chat_room \<mapsto> renaming_room]\<rparr>"



section \<open>Properties\<close>

subsection \<open>The capability key resolver\<close>

lemma strdup_Inl [simp]: "strdup x = Inl e \<longleftrightarrow> x = None"
  by (cases x; cases e) simp_all

lemma strdup_Inr [simp]: "strdup x = Inr y \<longleftrightarrow> x \<noteq> None \<and> y = x"
  by (cases x) auto

text \<open>The resolver writes to the log of sent stanzas only.\<close>

lemma get_caps_key_keeps:
  "caps_cache (snd (get_caps_key s w)) = caps_cache w"
  "events (snd (get_caps_key s w)) = events w"
  "rooms (snd (get_caps_key s w)) = rooms w"
  "now (snd (get_caps_key s w)) = now w"
  "sub_requests (snd (get_caps_key s w)) = sub_requests w"
  by (simp_all add: get_caps_key_def xmpp_send_def Let_def split: option.splits)

text \<open>It ends with an error exactly on the shape \<open>null_key_copy\<close>, having sent nothing.\<close>

lemma get_caps_key_fails_iff:
  "(\<exists>e. fst (get_caps_key s w) = Inl e) \<longleftrightarrow> null_key_copy s"
  by (auto simp add: get_caps_key_def null_key_copy_def Let_def split: option.splits)

lemma get_caps_key_error:
  "fst (get_caps_key s w) = Inl e \<Longrightarrow> snd (get_caps_key s w) = w"
  by (auto simp add: get_caps_key_def null_key_copy_def Let_def split: option.splits if_splits)

text \<open>On every other shape it returns, having sent at most one stanza.\<close>

lemma get_caps_key_returns:
  assumes "\<not> null_key_copy s"
  shows "\<exists>k q. get_caps_key s w = (Inr k, w\<lparr>sent := sent w @ q\<rparr>)"
proof (cases "st_caps s")
  case None
  then have "get_caps_key s w = (Inr None, w\<lparr>sent := sent w @ []\<rparr>)"
    by (simp add: get_caps_key_def)
  then show ?thesis by blast
next
  case (Some c)
  show ?thesis
  proof (cases "caps_str c")
    case None
    with Some assms have "get_caps_key s w = (Inr (Some (st_from s)), w\<lparr>sent := sent w @ []\<rparr>)"
      by (auto simp add: get_caps_key_def null_key_copy_def Let_def split: option.splits)
    then show ?thesis by blast
  next
    case (Some n)
    with \<open>st_caps s = Some c\<close>
    have "\<exists>k. get_caps_key s w = (Inr k, w\<lparr>sent := sent w @ []\<rparr>)
            \<or> (\<exists>iq. get_caps_key s w = (Inr k, w\<lparr>sent := sent w @ [iq]\<rparr>))"
      by (auto simp add: get_caps_key_def Let_def xmpp_send_def split: option.splits)
    then show ?thesis by blast
  qed
qed

lemma get_caps_key_cached:
  assumes "fst (get_caps_key s w) = Inr (Some k)" and "k \<in> caps_cache w"
  shows "sent (snd (get_caps_key s w)) = sent w"
  using assms
  by (auto simp add: get_caps_key_def Let_def xmpp_send_def caps_contains_def
        split: option.splits if_splits)

lemma get_caps_key_at_most_one:
  "length (sent (snd (get_caps_key s w))) \<le> Suc (length (sent w))"
  by (auto simp add: get_caps_key_def Let_def xmpp_send_def split: option.splits)

text \<open>
  C10. The claim: when the advertisement declares the hash sha-1 and carries no
  verification string, the resolver returns a defined result and never copies a null key.
  The source does copy it: with \<open>node\<close> null, line 475 makes \<open>caps_key\<close> null, the
  test of line 477 only skips the discovery query, and line 515 calls \<open>strdup\<close> on the
  null key. On this stanza the resolver ends with the null-pointer error.
\<close>

theorem null_key_copy_reached:
  "null_key_copy hash_without_ver \<and>
   get_caps_key hash_without_ver empty_world = (Inl NullPointer, empty_world)"
  by (simp add: get_caps_key_def null_key_copy_def hash_without_ver_def plain_presence_def)

text \<open>
  With the supported hash sha-1: one discovery query, with the identifier disco, addressed
  to the sender and targeting the advertised string, is sent exactly when the string is
  present and the cache does not hold it; and when a string is advertised the resolver
  returns it as the key.
\<close>

lemma supported_hash_key_and_query:
  assumes "st_caps stanza = Some c" and "caps_hash c = Some ''sha-1''"
  shows "(\<forall>ver. caps_str c = Some ver \<longrightarrow> fst (get_caps_key stanza w) = Inr (Some ver)) \<and>
         sent (snd (get_caps_key stanza w)) =
           sent w @ (if caps_str c \<noteq> None \<and> the (caps_str c) \<notin> caps_cache w
                     then [\<lparr>iq_id = ''disco'', iq_to = st_from stanza, iq_node = the (caps_str c)\<rparr>]
                     else [])"
  using assms
  by (auto simp add: get_caps_key_def Let_def xmpp_send_def stanza_create_disco_iq_def
        caps_contains_def split: option.splits)

lemma supported_hash_with_ver_example:
  "st_caps hash_with_ver = Some \<lparr>caps_hash = Some ''sha-1'', caps_str = Some ''client#q07IKJEyjvHSyhy''\<rparr> \<and>
   fst (get_caps_key hash_with_ver empty_world) = Inr (Some ''client#q07IKJEyjvHSyhy'') \<and>
   sent (snd (get_caps_key hash_with_ver empty_world)) =
     [\<lparr>iq_id = ''disco'', iq_to = ''carol@example.com/phone'', iq_node = ''client#q07IKJEyjvHSyhy''\<rparr>]"
  using supported_hash_key_and_query
          [of hash_with_ver "\<lparr>caps_hash = Some ''sha-1'', caps_str = Some ''client#q07IKJEyjvHSyhy''\<rparr>"
              empty_world]
  by (simp add: hash_with_ver_def plain_presence_def empty_world_def)

text \<open>
  C4. The claim: for every advertisement with the supported hash the resolver returns the
  advertised verification string as the key, and sends the disco query exactly when the
  string is present and not cached. The query part holds
  (\<open>supported_hash_key_and_query\<close>). The key part holds when a string is advertised.
  When none is, the claim still has the resolver return, with no query sent; the source
  sends no query, but then copies the null key at line 515, so no key is returned.
\<close>

theorem supported_hash_without_ver_no_key:
  "st_caps hash_without_ver = Some \<lparr>caps_hash = Some ''sha-1'', caps_str = None\<rparr> \<and>
   fst (get_caps_key hash_without_ver joined_world) = Inl NullPointer \<and>
   sent (snd (get_caps_key hash_without_ver joined_world)) = []"
  by (simp add: get_caps_key_def hash_without_ver_def plain_presence_def joined_world_def
        empty_world_def)

text \<open>
  C5. For a stanza whose advertisement declares another hash or none: the resolver
  returns the sender (the from attribute) as the key; and one discovery query, with the
  identifier disco_ followed by the sender, addressed to the sender and targeting the
  node, is sent exactly when the node string is present and the cache does not hold the
  key; with no node string nothing is sent.
\<close>

theorem legacy_key_and_query:
  assumes "st_caps stanza = Some c" and "caps_hash c \<noteq> Some ''sha-1''"
  shows "fst (get_caps_key stanza w) = Inr (Some (st_from stanza)) \<and>
         sent (snd (get_caps_key stanza w)) =
           sent w @ (if caps_str c \<noteq> None \<and> st_from stanza \<notin> caps_cache w
                     then [\<lparr>iq_id = ''disco_'' @ st_from stanza, iq_to = st_from stanza,
                            iq_node = the (caps_str c)\<rparr>]
                     else [])"
  using assms
  by (auto simp add: get_caps_key_def Let_def xmpp_send_def stanza_create_disco_iq_def
        caps_contains_def split: option.splits)

theorem legacy_key_and_query_witness:
  "st_caps legacy_caps = Some \<lparr>caps_hash = None, caps_str = Some ''client#1.0''\<rparr> \<and>
   fst (get_caps_key legacy_caps empty_world) = Inr (Some ''carol@example.com/phone'') \<and>
   sent (snd (get_caps_key legacy_caps empty_world)) =
     [\<lparr>iq_id = ''disco_carol@example.com/phone'', iq_to = ''carol@example.com/phone'',
       iq_node = ''client#1.0''\<rparr>]"
  using legacy_key_and_query
          [of legacy_caps "\<lparr>caps_hash = None, caps_str = Some ''client#1.0''\<rparr>" empty_world]
  by (simp add: legacy_caps_def plain_presence_def empty_world_def)

text \<open>
  C6. Two stanzas, from any senders, resolve to the same key \<open>k\<close>. If the cache holds
  \<open>k\<close> when the second is resolved (whatever was put into it in between), the second
  call sends no discovery query, so the pair sends at most one; and no call changes the
  cache.
\<close>

theorem caps_discovery_idempotent:
  assumes "get_caps_key s1 w = (Inr (Some k), w1)"
      and "k \<in> C"
      and "get_caps_key s2 (w1\<lparr>caps_cache := C\<rparr>) = (Inr (Some k), w2)"
  shows "sent w2 = sent w1 \<and> length (sent w2) \<le> Suc (length (sent w)) \<and>
         caps_cache w1 = caps_cache w \<and> caps_cache w2 = C"
proof -
  have w1: "w1 = snd (get_caps_key s1 w)" using assms(1) by simp
  have w2: "w2 = snd (get_caps_key s2 (w1\<lparr>caps_cache := C\<rparr>))" using assms(3) by simp
  have "fst (get_caps_key s2 (w1\<lparr>caps_cache := C\<rparr>)) = Inr (Some k)" using assms(3) by simp
  then have a: "sent w2 = sent w1"
    using get_caps_key_cached [of s2 "w1\<lparr>caps_cache := C\<rparr>" k] assms(2) w2 by simp
  have b: "length (sent w1) \<le> Suc (length (sent w))"
    unfolding w1 by (rule get_caps_key_at_most_one)
  have c: "caps_cache w1 = caps_cache w" unfolding w1 by (rule get_caps_key_keeps)
  have d: "caps_cache w2 = C" unfolding w2 by (simp add: get_caps_key_keeps)
  from a b c d show ?thesis by simp
qed

theorem caps_discovery_idempotent_witness:
  "get_caps_key hash_with_ver empty_world =
     (Inr (Some ''client#q07IKJEyjvHSyhy''),
      empty_world\<lparr>sent := [\<lparr>iq_id = ''disco'', iq_to = ''carol@example.com/phone'',
                              iq_node = ''client#q07IKJEyjvHSyhy''\<rparr>]\<rparr>) \<and>
   get_caps_key hash_with_ver_dave
     (empty_world\<lparr>sent := [\<lparr>iq_id = ''disco'', iq_to = ''carol@example.com/phone'',
                              iq_node = ''client#q07IKJEyjvHSyhy''\<rparr>],
                  caps_cache := {''client#q07IKJEyjvHSyhy''}\<rparr>) =
     (Inr (Some ''client#q07IKJEyjvHSyhy''),
      empty_world\<lparr>sent := [\<lparr>iq_id = ''disco'', iq_to = ''carol@example.com/phone'',
                              iq_node = ''client#q07IKJEyjvHSyhy''\<rparr>],
                  caps_cache := {''client#q07IKJEyjvHSyhy''}\<rparr>) \<and>
   length (sent (empty_world\<lparr>sent := [\<lparr>iq_id = ''disco'', iq_to = ''carol@example.com/phone'',
                              iq_node = ''client#q07IKJEyjvHSyhy''\<rparr>],
                  caps_cache := {''client#q07IKJEyjvHSyhy''}\<rparr>)) \<le> Suc (length (sent empty_world))"
proof -
  let ?k = "''client#q07IKJEyjvHSyhy''"
  let ?w1 = "empty_world\<lparr>sent := [\<lparr>iq_id = ''disco'', iq_to = ''carol@example.com/phone'',
                                      iq_node = ?k\<rparr>]\<rparr>"
  have h1: "get_caps_key hash_with_ver empty_world = (Inr (Some ?k), ?w1)"
    by (simp add: get_caps_key_def hash_with_ver_def plain_presence_def empty_world_def
          caps_contains_def xmpp_send_def stanza_create_disco_iq_def)
  have h2: "?k \<in> {?k}" by simp
  have h3: "get_caps_key hash_with_ver_dave (?w1\<lparr>caps_cache := {?k}\<rparr>) =
              (Inr (Some ?k), ?w1\<lparr>caps_cache := {?k}\<rparr>)"
    by (simp add: get_caps_key_def hash_with_ver_dave_def plain_presence_def empty_world_def
          caps_contains_def)
  from caps_discovery_idempotent [OF h1 h2 h3] h1 h3 show ?thesis by simp
qed

subsection \<open>Direct presence\<close>







text \<open>
  What \<open>atoi\<close> gives: a value of the 32-bit range; 0 on text without a decimal
  digit; the value of the leading digits when other characters follow; the low 32 bits
  when the digits exceed the range of \<open>int\<close>; and -1 (the low bits of the saturated
  \<open>long\<close>) when they exceed the range of \<open>long\<close>.
\<close>

lemma atoi_range: "- (2 ^ 31) \<le> atoi s \<and> atoi s < 2 ^ 31"
proof -
  have "0 \<le> (strtol s + 2 ^ 31) mod 2 ^ 32" "(strtol s + 2 ^ 31) mod 2 ^ 32 < 2 ^ 32"
    by simp_all
  then show ?thesis by (simp add: atoi_def int_of_long_def)
qed

lemma atoi_digits_none: "\<forall>c\<in>set cs. \<not> isdigit c \<Longrightarrow> atoi_digits cs acc = acc"
  by (cases cs) simp_all

lemma decimal_prefix_non_numeric:
  assumes "\<forall>c\<in>set t. \<not> isdigit c"
  shows "decimal_prefix t = 0"
proof (cases "dropWhile isspace t")
  case Nil
  show ?thesis unfolding decimal_prefix_def Nil by simp
next
  case (Cons c cs)
  have "set (dropWhile isspace t) \<subseteq> set t" by (rule set_dropWhileD [THEN subsetI])
  then have nd: "\<forall>x\<in>set (c # cs). \<not> isdigit x" using assms Cons by auto
  then have "atoi_digits cs 0 = 0" "atoi_digits (c # cs) 0 = 0"
    using atoi_digits_none [of cs 0] atoi_digits_none [of "c # cs" 0] by simp_all
  then show ?thesis unfolding decimal_prefix_def Cons by simp
qed

lemma atoi_non_numeric:
  assumes "\<forall>c\<in>set t. \<not> isdigit c"
  shows "atoi t = 0"
  using decimal_prefix_non_numeric [OF assms]
  by (simp add: atoi_def strtol_def int_of_long_def LONG_MAX_def LONG_MIN_def)

lemma atoi_leading_digits: "atoi ''12abc'' = 12"
  by (simp add: atoi_def strtol_def int_of_long_def LONG_MAX_def LONG_MIN_def
        decimal_prefix_def isspace_def isdigit_def)

lemma atoi_negative: "atoi '' -7'' = - 7"
  by (simp add: atoi_def strtol_def int_of_long_def LONG_MAX_def LONG_MIN_def
        decimal_prefix_def isspace_def isdigit_def)

lemma atoi_beyond_int: "atoi ''4294967301'' = 5"
  by (simp add: atoi_def strtol_def int_of_long_def LONG_MAX_def LONG_MIN_def
        decimal_prefix_def isspace_def isdigit_def)

lemma atoi_beyond_long: "atoi ''99999999999999999999'' = - 1"
  by (simp add: atoi_def strtol_def int_of_long_def LONG_MAX_def LONG_MIN_def
        decimal_prefix_def isspace_def isdigit_def)

text \<open>
  The online path on an available stanza from another account, when the resolver
  returns: one contact-online notification, whose resource is built from the children
  with the defaults of lines 399-424.
\<close>

lemma available_handler_online:
  assumes "st_type stanza = None" and "\<not> st_muc_user stanza"
      and "barejid (conn_jid conn) \<noteq> barejid (st_from_jid stanza)"
      and "\<not> null_key_copy stanza"
  shows "\<exists>k q. available_handler conn stanza w =
           (Inr 1, w\<lparr>sent := sent w @ q,
                     events := events w @
                       [ContactOnline (barejid (st_from_jid stanza))
                          (resource_new (resourcepart (st_from_jid stanza))
                             (resource_presence_from_string
                                (case st_show stanza of Some t \<Rightarrow> t | None \<Rightarrow> Some ''online''))
                             (case st_status stanza of Some t \<Rightarrow> t | None \<Rightarrow> None)
                             (case st_priority stanza of
                                Some (Some priority_str) \<Rightarrow> atoi priority_str
                              | _ \<Rightarrow> 0)
                             k)
                          (if st_idle_time stanza > 0 then Some (now w - st_idle_time stanza)
                           else None)]\<rparr>)"
proof -
  obtain k q where g: "get_caps_key stanza w = (Inr k, w\<lparr>sent := sent w @ q\<rparr>)"
    using get_caps_key_returns [OF assms(4)] by blast
  have "available_handler conn stanza w =
           (Inr 1, w\<lparr>sent := sent w @ q,
                     events := events w @
                       [ContactOnline (barejid (st_from_jid stanza))
                          (resource_new (resourcepart (st_from_jid stanza))
                             (resource_presence_from_string
                                (case st_show stanza of Some t \<Rightarrow> t | None \<Rightarrow> Some ''online''))
                             (case st_status stanza of Some t \<Rightarrow> t | None \<Rightarrow> None)
                             (case st_priority stanza of
                                Some (Some priority_str) \<Rightarrow> atoi priority_str
                              | _ \<Rightarrow> 0)
                             k)
                          (if st_idle_time stanza > 0 then Some (now w - st_idle_time stanza)
                           else None)]\<rparr>)"
    using assms(1-3) g
    by (simp add: available_handler_def Let_def stanza_is_muc_presence_def
          prof_handle_contact_online_def emit_def)
  then show ?thesis by blast
qed

lemma available_handler_defaults:
  "st_priority stanza = None \<or> st_priority stanza = Some None \<or>
     (\<exists>t. st_priority stanza = Some (Some t) \<and> (\<forall>c\<in>set t. \<not> isdigit c)) \<Longrightarrow>
   (case st_priority stanza of Some (Some priority_str) \<Rightarrow> atoi priority_str | _ \<Rightarrow> 0) = 0"
  "st_show stanza = None \<Longrightarrow>
   resource_presence_from_string (case st_show stanza of Some t \<Rightarrow> t | None \<Rightarrow> Some ''online'')
     = RESOURCE_ONLINE"
  "st_status stanza = None \<Longrightarrow> (case st_status stanza of Some t \<Rightarrow> t | None \<Rightarrow> None) = None"
  by (auto simp add: atoi_non_numeric resource_presence_from_string_def)

text \<open>Scenario D of the spec.\<close>

lemma scenario_d:
  "available_handler local_conn (plain_presence ''carol@example.com'' ''phone'') empty_world =
     (Inr 1, empty_world\<lparr>events :=
        [ContactOnline ''carol@example.com''
           \<lparr>res_name = ''phone'', res_presence = RESOURCE_ONLINE, res_status = None,
            res_priority = 0, res_caps_str = None\<rparr> None]\<rparr>)"
  by (simp add: available_handler_def Let_def stanza_is_muc_presence_def plain_presence_def
        local_conn_def empty_world_def get_caps_key_def prof_handle_contact_online_def emit_def
        resource_new_def resource_presence_from_string_def)

text \<open>
  C7. The claim: on every available direct presence, malformed or missing children are
  recovered with defaults and never end in a failure. When the resolver returns, a
  missing show, status or priority child and a priority text without a decimal digit get
  the defaults (\<open>available_handler_online\<close>, \<open>available_handler_defaults\<close>;
  text that begins with digits reads as their value, \<open>atoi_leading_digits\<close>). But
  the handler resolves the capability key first (line 389), and on an advertisement with
  hash sha-1 and no verification string that call ends in the null copy of line 515: the
  stanza below has no show, status or priority child, comes from another account, and no
  contact-online notification is made.
\<close>

theorem available_handler_null_key_copy:
  "st_type hash_without_ver = None \<and> \<not> st_muc_user hash_without_ver \<and>
   barejid (conn_jid local_conn) \<noteq> barejid (st_from_jid hash_without_ver) \<and>
   available_handler local_conn hash_without_ver empty_world = (Inl NullPointer, empty_world)"
  by (simp add: available_handler_def Let_def stanza_is_muc_presence_def hash_without_ver_def
        plain_presence_def local_conn_def get_caps_key_def)

subsection \<open>Dispatch\<close>

text \<open>
  C1. The claim: a stanza with the room marker and type unavailable goes to the room
  handler only, and the offline path makes no contact-offline notification for it.
  \<open>_unavailable_handler\<close> is registered for every namespace and does not test for
  the room marker (as \<open>_available_handler\<close> does at line 377), so it runs after the
  room handler and notifies contact-offline for the occupant.
\<close>

theorem muc_unavailable_reaches_offline_path:
  "presence_dispatch local_conn muc_unavailable joined_world =
     (Inr 1, joined_world\<lparr>events :=
        [RoomMemberOffline ''room@conference.example.com'' ''bob'' ''offline'' None,
         ContactOffline ''room@conference.example.com'' ''bob'' None]\<rparr>)"
  by (simp add: presence_dispatch_def presence_add_handlers_def handler_matches_def
        muc_unavailable_def muc_presence_def plain_presence_def joined_world_def empty_world_def local_conn_def
        room_presence_handler_def unavailable_handler_def available_handler_def
        stanza_is_muc_presence_def stanza_is_muc_self_presence_def stanza_is_room_nick_change_def
        get_caps_key_def prof_handle_room_member_offline_def prof_handle_contact_offline_def
        emit_def)

subsection \<open>Room presence\<close>

lemma update_room_rooms:
  "rooms (update_room rm f w) x = (if x = rm then map_option f (rooms w x) else rooms w x)"
  by (simp add: update_room_def split: option.splits)

lemma update_room_keeps [simp]:
  "events (update_room rm f w) = events w"
  "sent (update_room rm f w) = sent w"
  "caps_cache (update_room rm f w) = caps_cache w"
  by (simp_all add: update_room_def split: option.splits)

text \<open>
  C8. An available self-presence (type neither unavailable nor error) for a room whose
  own nick change is pending: the own nick becomes the sender's nick, the pending flag is
  cleared and room-nickname-changed is notified with the room and the new nick. Nothing
  else changes: no roster-complete notification is made and \<open>roster_received\<close> keeps
  its value, also when it is false.
\<close>

theorem self_nick_change_before_roster_complete:
  assumes "st_muc_self_presence stanza"
      and "st_type stanza \<noteq> Some STANZA_TYPE_ERROR"
      and "st_type stanza \<noteq> Some STANZA_TYPE_UNAVAILABLE"
      and "rooms w (barejid (st_from_jid stanza)) = Some r"
      and "self_pending_nick_change r"
  shows "room_presence_handler conn stanza w =
           (Inr 1, w\<lparr>rooms := (rooms w)(barejid (st_from_jid stanza) \<mapsto>
                                r\<lparr>self_nick := resourcepart (st_from_jid stanza),
                                  self_pending_nick_change := False\<rparr>),
                     events := events w @ [RoomNickChange (barejid (st_from_jid stanza))
                                             (resourcepart (st_from_jid stanza))]\<rparr>)"
  using assms
  by (simp add: room_presence_handler_def Let_def stanza_is_muc_self_presence_def
        muc_is_room_pending_nick_change_def muc_complete_room_nick_change_def
        prof_handle_room_nick_change_def update_room_def emit_def)

theorem self_nick_change_before_roster_complete_witness:
  "st_muc_self_presence self_renamed \<and>
   st_type self_renamed \<noteq> Some STANZA_TYPE_ERROR \<and>
   st_type self_renamed \<noteq> Some STANZA_TYPE_UNAVAILABLE \<and>
   rooms renaming_world (barejid (st_from_jid self_renamed)) = Some renaming_room \<and>
   self_pending_nick_change renaming_room \<and> \<not> roster_received renaming_room \<and>
   events (snd (room_presence_handler local_conn self_renamed renaming_world)) =
     [RoomNickChange ''room@conference.example.com'' ''me2''] \<and>
   rooms (snd (room_presence_handler local_conn self_renamed renaming_world)) chat_room =
     Some \<lparr>self_nick = ''me2'', roster_received = False, occupants = Map.empty,
           pending_nick_change = None, self_pending_nick_change = False\<rparr>"
  using self_nick_change_before_roster_complete
          [of self_renamed renaming_world renaming_room local_conn]
  by (simp add: self_renamed_def muc_presence_def plain_presence_def renaming_world_def
        renaming_room_def joining_room_def empty_world_def chat_room_def)

text \<open>
  The nick change of a member, when the capability resolver returns on both stanzas: in a
  room with \<open>roster_received\<close> true and alice in the table, the member stanzas
  (unavailable from alice, nick-change marker, new nick alice2) and then (available from
  alice2) make exactly one notification, room-member-nickname-changed from alice to
  alice2; afterwards the table holds alice2 and not alice.
\<close>

lemma member_nick_change_round_trip:
  assumes "rooms w room = Some r" and "roster_received r" and "occupants r ''alice'' \<noteq> None"
      and "st_from_jid s1 = \<lparr>barejid = room, resourcepart = ''alice''\<rparr>"
      and "st_type s1 = Some STANZA_TYPE_UNAVAILABLE" and "\<not> st_muc_self_presence s1"
      and "st_room_nick_change s1" and "st_new_nick s1 = Some ''alice2''"
      and "\<not> null_key_copy s1"
      and "st_from_jid s2 = \<lparr>barejid = room, resourcepart = ''alice2''\<rparr>"
      and "st_type s2 \<noteq> Some STANZA_TYPE_UNAVAILABLE" and "st_type s2 \<noteq> Some STANZA_TYPE_ERROR"
      and "\<not> st_muc_self_presence s2" and "\<not> null_key_copy s2"
  shows "\<exists>w' r'. room_presence_run conn [s1, s2] w = (Inr 1, w') \<and>
           events w' = events w @ [RoomMemberNickChange room ''alice'' ''alice2''] \<and>
           rooms w' room = Some r' \<and>
           occupants r' ''alice2'' \<noteq> None \<and> occupants r' ''alice'' = None"
proof -
  obtain k1 q1 where g1: "get_caps_key s1 w = (Inr k1, w\<lparr>sent := sent w @ q1\<rparr>)"
    using get_caps_key_returns [OF assms(9)] by blast
  define wa where "wa = muc_set_roster_pending_nick_change room (Some ''alice2'') ''alice''
                          (w\<lparr>sent := sent w @ q1\<rparr>)"
  have h1: "room_presence_handler conn s1 w = (Inr 1, wa)"
    using assms g1
    by (simp add: room_presence_handler_def Let_def stanza_is_muc_self_presence_def
          stanza_is_room_nick_change_def stanza_get_new_nick_def wa_def)
  obtain k2 q2 where g2: "get_caps_key s2 wa = (Inr k2, wa\<lparr>sent := sent wa @ q2\<rparr>)"
    using get_caps_key_returns [OF assms(14)] by blast
  have ra: "rooms wa = (rooms w)(room \<mapsto> r\<lparr>pending_nick_change := Some (''alice'', Some ''alice2'')\<rparr>)"
    using assms(1) by (simp add: wa_def muc_set_roster_pending_nick_change_def update_room_def)
  have ea: "events wa = events w"
    by (simp add: wa_def muc_set_roster_pending_nick_change_def)
  obtain w' where h2: "room_presence_handler conn s2 wa = (Inr 1, w')"
    and ev: "events w' = events w @ [RoomMemberNickChange room ''alice'' ''alice2'']"
    and rm: "\<exists>r'. rooms w' room = Some r' \<and> occupants r' ''alice2'' \<noteq> None \<and> occupants r' ''alice'' = None"
    using assms g2 ra ea
    by (simp add: room_presence_handler_def Let_def stanza_is_muc_self_presence_def
          muc_get_roster_received_def muc_complete_roster_nick_change_def
          muc_add_to_roster_def prof_handle_room_member_nick_change_def update_room_def emit_def)
  show ?thesis using h1 h2 ev rm by auto
qed

lemma member_nick_change_example:
  "rooms joined_world chat_room = Some joined_room \<and> roster_received joined_room \<and>
   occupants joined_room ''alice'' \<noteq> None \<and>
   fst (room_presence_run local_conn [alice_renaming, alice_renamed] joined_world) = Inr 1 \<and>
   events (snd (room_presence_run local_conn [alice_renaming, alice_renamed] joined_world)) =
     [RoomMemberNickChange chat_room ''alice'' ''alice2''] \<and>
   occupants (the (rooms (snd (room_presence_run local_conn [alice_renaming, alice_renamed]
                                 joined_world)) chat_room)) ''alice2'' \<noteq> None \<and>
   occupants (the (rooms (snd (room_presence_run local_conn [alice_renaming, alice_renamed]
                                 joined_world)) chat_room)) ''alice'' = None"
proof -
  have hyps: "rooms joined_world chat_room = Some joined_room" "roster_received joined_room"
      "occupants joined_room ''alice'' \<noteq> None"
      "st_from_jid alice_renaming = \<lparr>barejid = chat_room, resourcepart = ''alice''\<rparr>"
      "st_type alice_renaming = Some STANZA_TYPE_UNAVAILABLE"
      "\<not> st_muc_self_presence alice_renaming"
      "st_room_nick_change alice_renaming" "st_new_nick alice_renaming = Some ''alice2''"
      "\<not> null_key_copy alice_renaming"
      "st_from_jid alice_renamed = \<lparr>barejid = chat_room, resourcepart = ''alice2''\<rparr>"
      "st_type alice_renamed \<noteq> Some STANZA_TYPE_UNAVAILABLE"
      "st_type alice_renamed \<noteq> Some STANZA_TYPE_ERROR"
      "\<not> st_muc_self_presence alice_renamed" "\<not> null_key_copy alice_renamed"
    by (simp_all add: alice_renaming_def alice_renamed_def muc_presence_def plain_presence_def
          joined_world_def joined_room_def empty_world_def chat_room_def null_key_copy_def)
  from member_nick_change_round_trip [OF hyps, of local_conn]
  obtain w' r' where
    "room_presence_run local_conn [alice_renaming, alice_renamed] joined_world = (Inr 1, w')"
    "events w' = events joined_world @ [RoomMemberNickChange chat_room ''alice'' ''alice2'']"
    "rooms w' chat_room = Some r'" "occupants r' ''alice2'' \<noteq> None" "occupants r' ''alice'' = None"
    by blast
  moreover have "events joined_world = []" by (simp add: joined_world_def empty_world_def)
  ultimately show ?thesis using hyps(1-3) by simp
qed

text \<open>
  C2. The claim: in a room with \<open>roster_received\<close> true and alice in the table,
  every sequence (unavailable from alice with the nick-change marker and new nick alice2)
  then (available from alice2) gives exactly one room-member-nickname-changed from alice
  to alice2, and the table then holds alice2 and not alice. The member path resolves the
  capability key first (line 592). When the available stanza advertises the hash sha-1
  without a verification string, that call ends in the null copy of line 515: the run
  fails, nothing is notified, and alice2 is not in the table.
\<close>

theorem member_nick_change_null_key_copy:
  "rooms joined_world chat_room = Some joined_room \<and> roster_received joined_room \<and>
   occupants joined_room ''alice'' \<noteq> None \<and>
   fst (room_presence_run local_conn [alice_renaming, alice_renamed_no_ver] joined_world) =
     Inl NullPointer \<and>
   events (snd (room_presence_run local_conn [alice_renaming, alice_renamed_no_ver] joined_world)) = [] \<and>
   occupants (the (rooms (snd (room_presence_run local_conn [alice_renaming, alice_renamed_no_ver]
                                 joined_world)) chat_room)) ''alice2'' = None"
  by (simp add: alice_renaming_def alice_renamed_no_ver_def alice_renamed_def muc_presence_def
        plain_presence_def joined_world_def joined_room_def empty_world_def chat_room_def
        local_conn_def room_presence_handler_def Let_def stanza_is_muc_self_presence_def
        stanza_is_room_nick_change_def stanza_get_new_nick_def get_caps_key_def
        muc_set_roster_pending_nick_change_def update_room_def)

text \<open>Counting roster-complete notifications along a run.\<close>

lemma roster_complete_count_append [simp]:
  "roster_complete_count room (xs @ ys) = roster_complete_count room xs + roster_complete_count room ys"
  by (induction xs) (simp_all add: roster_complete_count_def)

lemma roster_complete_count_single [simp]:
  "roster_complete_count room [e] = (if e = RoomRosterComplete room then 1 else 0)"
  by (simp add: roster_complete_count_def)












end
